theory Spec2Isabelle
  imports Main
begin

section \<open>cfn-hint: hint parsing and line rewriting\<close>

text \<open>
  The program reads a document, looks for comment lines of the form
  \<^verbatim>\<open># cfn-hint: replace: <pattern> with: <replacement>\<close> and applies the regular
  expression substitution to the line that follows each of them. This theory embeds
  \<^verbatim>\<open>parse_hint\<close>, \<^verbatim>\<open>replace_line\<close> and \<^verbatim>\<open>process_content\<close> of \<^verbatim>\<open>cfn-hint.py\<close>,
  together with the string methods of Python they call.
\<close>

subsection \<open>Strings\<close>

text \<open>
  A Python \<^verbatim>\<open>str\<close> is a sequence of Unicode code points; a code point is a natural
  number here, so that the line boundaries and the white space above U+00FF are part of
  the model. \<open>str\<close> turns a literal into such a sequence.
\<close>

type_synonym ustr = "nat list"

definition str :: "string \<Rightarrow> ustr" where
  "str s = map of_char s"

definition bsl :: nat where
  \<comment> \<open>the backslash, which a literal cannot hold\<close>
  "bsl = 92"

text \<open>
  \<^verbatim>\<open>needle in haystack\<close>: the needle occurs as a contiguous run. \<open>find_sub\<close> returns the
  text before and after the first (leftmost) occurrence, which is also what
  \<^verbatim>\<open>str.split\<close> cuts at.
\<close>

fun starts_with :: "ustr \<Rightarrow> ustr \<Rightarrow> bool" where
  "starts_with s [] = True"
| "starts_with [] (p # ps) = False"
| "starts_with (c # cs) (p # ps) = (c = p \<and> starts_with cs ps)"

fun find_sub :: "ustr \<Rightarrow> ustr \<Rightarrow> (ustr \<times> ustr) option" where
  "find_sub sep [] = (if sep = [] then Some ([], []) else None)"
| "find_sub sep (c # cs) =
     (if starts_with (c # cs) sep then Some ([], drop (length sep) (c # cs))
      else (case find_sub sep cs of
              None \<Rightarrow> None
            | Some (before, after) \<Rightarrow> Some (c # before, after)))"

definition contains :: "ustr \<Rightarrow> ustr \<Rightarrow> bool" where
  \<comment> \<open>\<^verbatim>\<open>needle in haystack\<close>\<close>
  "contains needle haystack = (find_sub needle haystack \<noteq> None)"

text \<open>
  \<^verbatim>\<open>s.split(sep, maxsplit)\<close> for a non-empty separator: at most \<open>maxsplit\<close> cuts, from
  the left; the result is never empty.
\<close>

fun split :: "ustr \<Rightarrow> nat \<Rightarrow> ustr \<Rightarrow> ustr list" where
  "split sep 0 s = [s]"
| "split sep (Suc n) s =
     (case find_sub sep s of
        None \<Rightarrow> [s]
      | Some (before, after) \<Rightarrow> before # split sep n after)"

text \<open>
  \<^verbatim>\<open>str.isspace\<close> for one code point, and \<^verbatim>\<open>s.strip()\<close>, which removes white space
  at both ends.
\<close>

definition isspace :: "nat \<Rightarrow> bool" where
  "isspace c = (c \<in> set [0x09, 0x0A, 0x0B, 0x0C, 0x0D, 0x1C, 0x1D, 0x1E, 0x1F, 0x20,
                         0x85, 0xA0, 0x1680, 0x2000, 0x2001, 0x2002, 0x2003, 0x2004,
                         0x2005, 0x2006, 0x2007, 0x2008, 0x2009, 0x200A, 0x2028, 0x2029,
                         0x202F, 0x205F, 0x3000])"

definition strip :: "ustr \<Rightarrow> ustr" where
  "strip s = rev (dropWhile isspace (rev (dropWhile isspace s)))"

text \<open>
  \<^verbatim>\<open>s.splitlines(keepends=True)\<close>: the document is cut after each line boundary, and
  every line keeps its terminator. A carriage return directly followed by a line feed
  is one boundary. A document that does not end in a boundary has a last line without
  terminator; the empty document has no line.
\<close>

definition is_linebreak :: "nat \<Rightarrow> bool" where
  "is_linebreak c = (c \<in> set [0x0A, 0x0B, 0x0C, 0x0D, 0x1C, 0x1D, 0x1E, 0x85, 0x2028, 0x2029])"

fun cons_first :: "nat \<Rightarrow> ustr list \<Rightarrow> ustr list" where
  "cons_first c [] = [[c]]"
| "cons_first c (l # ls) = (c # l) # ls"

fun splitlines :: "ustr \<Rightarrow> ustr list" where
  "splitlines [] = []"
| "splitlines [c] = [[c]]"
| "splitlines (c # d # cs) =
     (if c = 0x0D \<and> d = 0x0A then [c, d] # splitlines cs
      else if is_linebreak c then [c] # splitlines (d # cs)
      else cons_first c (splitlines (d # cs)))"

subsection \<open>Exceptions and the regular expression engine\<close>

text \<open>
  The exception classes that the three functions raise, catch or let pass.
  \<open>re_error\<close> is \<^verbatim>\<open>re.error\<close>; \<open>Exception name\<close> stands for an exception of any
  other class, such as the \<^verbatim>\<open>OverflowError\<close> of \<^verbatim>\<open>re.compile\<close>. The messages are
  left out: they only reach the log.
\<close>

datatype exn = ValueError | IndexError | re_error | Exception string

text \<open>
  The module \<^verbatim>\<open>re\<close> belongs to the Python library, not to the program, so the engine
  is a parameter: \<open>re_compile E pattern\<close> is \<open>None\<close> when \<^verbatim>\<open>re.compile(pattern)\<close>
  returns and the exception it raises otherwise; \<open>re_sub E pattern replacement line\<close>
  is the outcome of \<^verbatim>\<open>re.sub(pattern, replacement, line)\<close>, the global substitution of
  every non-overlapping match.
\<close>

record engine =
  re_compile :: "ustr \<Rightarrow> exn option"
  re_sub :: "ustr \<Rightarrow> ustr \<Rightarrow> ustr \<Rightarrow> exn + ustr"

subsection \<open>The program\<close>

definition colon :: ustr where
  "colon = str '':''"

definition with_delim :: ustr where
  "with_delim = str '' with: ''"

definition marker :: ustr where
  "marker = str ''# cfn-hint: replace:''"

text \<open>
  \<^verbatim>\<open>parse_hint\<close>: the text after the second colon, stripped, is cut at the first
  \<^verbatim>\<open>' with: '\<close>. Indexing with \<^verbatim>\<open>[-1]\<close> raises IndexError on an empty list and
  unpacking into two names raises ValueError unless there are exactly two pieces; both
  are caught and raised again as ValueError.
\<close>

definition parse_hint :: "ustr \<Rightarrow> exn + (ustr \<times> ustr)" where
  "parse_hint hint_line =
     (case split colon 2 hint_line of
        [] \<Rightarrow> Inl ValueError
      | p # ps \<Rightarrow>
          (let parts = strip (last (p # ps)) in
           case split with_delim 1 parts of
             [pattern, replacement] \<Rightarrow> Inr (pattern, replacement)
           | _ \<Rightarrow> Inl ValueError))"

text \<open>
  \<^verbatim>\<open>replace_line\<close>: the pattern is compiled, then substituted in the whole line. Only
  \<^verbatim>\<open>re.error\<close> is caught, from either call, and raised again as ValueError; any other
  exception of the engine passes through.
\<close>

definition replace_line :: "engine \<Rightarrow> ustr \<Rightarrow> ustr \<Rightarrow> ustr \<Rightarrow> exn + ustr" where
  "replace_line E line pattern replacement =
     (case re_compile E pattern of
        Some e \<Rightarrow> (if e = re_error then Inl ValueError else Inl e)
      | None \<Rightarrow>
          (case re_sub E pattern replacement line of
             Inl e \<Rightarrow> (if e = re_error then Inl ValueError else Inl e)
           | Inr s \<Rightarrow> Inr s))"

definition is_hint_line :: "ustr \<Rightarrow> bool" where
  \<comment> \<open>\<^verbatim>\<open>"# cfn-hint: replace:" in line\<close>\<close>
  "is_hint_line line = contains marker line"

text \<open>
  The loop of \<^verbatim>\<open>process_content\<close>. The second argument is \<^verbatim>\<open>modified_lines\<close>, the
  third what the iterator \<^verbatim>\<open>lines_iter\<close> still holds. \<^verbatim>\<open>next(lines_iter)\<close> takes the
  head of the remaining lines, and StopIteration is the empty list. Only ValueError is
  caught around \<^verbatim>\<open>parse_hint\<close> and \<^verbatim>\<open>replace_line\<close>.
\<close>

fun loop :: "engine \<Rightarrow> ustr list \<Rightarrow> ustr list \<Rightarrow> exn + ustr list" where
  "loop E modified_lines [] = Inr modified_lines"
| "loop E modified_lines (line # lines_iter) =
     (if is_hint_line line then
        (case parse_hint line of
           Inl e \<Rightarrow>
             (if e = ValueError then loop E (modified_lines @ [line]) lines_iter
              else Inl e)
         | Inr (pattern, replacement) \<Rightarrow>
             (case lines_iter of
                [] \<Rightarrow> loop E (modified_lines @ [line]) []
              | next_line # lines_rest \<Rightarrow>
                  (case replace_line E next_line pattern replacement of
                     Inl e \<Rightarrow>
                       (if e = ValueError
                        then loop E (modified_lines @ [line] @ [next_line]) lines_rest
                        else Inl e)
                   | Inr modified_line \<Rightarrow>
                       loop E (modified_lines @ [line] @ [modified_line]) lines_rest)))
      else loop E (modified_lines @ [line]) lines_iter)"

definition process_content :: "engine \<Rightarrow> ustr \<Rightarrow> exn + ustr" where
  "process_content E content =
     (case loop E [] (splitlines content) of
        Inl e \<Rightarrow> Inl e
      | Inr modified_lines \<Rightarrow> Inr (concat modified_lines))"

subsection \<open>Engines to run the program on\<close>

text \<open>
  Two engines serve as concrete inputs. \<open>lit_re\<close> is the literal fragment of \<^verbatim>\<open>re\<close>:
  a pattern without metacharacter matches itself, a replacement without backslash
  stands for itself, and \<^verbatim>\<open>re.sub\<close> replaces the non-overlapping occurrences from
  the left (an empty pattern matches before every character and at the end). What is
  outside the fragment it rejects with \<^verbatim>\<open>re.error\<close>, which \<^verbatim>\<open>re\<close> itself does for the
  pattern \<^verbatim>\<open>(\<close> and for the replacement \<^verbatim>\<open>\9\<close> used below.
\<close>

definition is_meta :: "nat \<Rightarrow> bool" where
  "is_meta c = (c \<in> set (str ''.^$*+?{}[]|()'') \<or> c = bsl)"

function replace_all :: "ustr \<Rightarrow> ustr \<Rightarrow> ustr \<Rightarrow> ustr" where
  "replace_all pat rep [] = []"
| "replace_all pat rep (c # cs) =
     (if pat \<noteq> [] \<and> starts_with (c # cs) pat
      then rep @ replace_all pat rep (drop (length pat - 1) cs)
      else c # replace_all pat rep cs)"
  by pat_completeness auto
termination
  by (relation "measure (\<lambda>(pat, rep, s). length s)") auto

definition lit_sub :: "ustr \<Rightarrow> ustr \<Rightarrow> ustr \<Rightarrow> ustr" where
  "lit_sub pat rep s =
     (if pat = [] then rep @ concat (map (\<lambda>c. c # rep) s) else replace_all pat rep s)"

definition lit_re :: engine where
  "lit_re =
     \<lparr> re_compile = (\<lambda>p. if list_ex is_meta p then Some re_error else None),
       re_sub = (\<lambda>p r s. if list_ex is_meta p \<or> bsl \<in> set r then Inl re_error
                          else Inr (lit_sub p r s)) \<rparr>"

text \<open>
  \<open>py_re\<close> adds to it what \<^verbatim>\<open>re\<close> of CPython 3.11 answers to four calls:
  \<^verbatim>\<open>re.compile('a{4294967296}')\<close> raises OverflowError (the repetition number is too
  large), \<^verbatim>\<open>re.sub('(\\d+)', '[\\1]', 'count: 42\n')\<close> is \<^verbatim>\<open>'count: [42]\n'\<close>, and
  \<^verbatim>\<open>re.sub('\\n', ';', s)\<close> is \<^verbatim>\<open>'abc;'\<close> for \<^verbatim>\<open>'abc\n'\<close> and \<^verbatim>\<open>'def;'\<close> for \<^verbatim>\<open>'def\n'\<close>.
\<close>

definition pat_overflow :: ustr where
  "pat_overflow = str ''a{4294967296}''"

definition pat_digits :: ustr where
  "pat_digits = str ''('' @ [bsl] @ str ''d+)''"

definition rep_group :: ustr where
  "rep_group = str ''['' @ [bsl] @ str ''1]''"

definition pat_newline :: ustr where
  "pat_newline = [bsl] @ str ''n''"

definition py_re :: engine where
  "py_re =
     \<lparr> re_compile = (\<lambda>p. if p = pat_overflow then Some (Exception ''OverflowError'')
                          else if p = pat_digits \<or> p = pat_newline then None
                          else re_compile lit_re p),
       re_sub = (\<lambda>p r s.
          if p = pat_overflow then Inl (Exception ''OverflowError'')
          else if p = pat_digits \<and> r = rep_group \<and> s = str ''count: 42\<newline>''
            then Inr (str ''count: [42]\<newline>'')
          else if p = pat_newline \<and> r = str '';'' \<and> s = str ''abc\<newline>''
            then Inr (str ''abc;'')
          else if p = pat_newline \<and> r = str '';'' \<and> s = str ''def\<newline>''
            then Inr (str ''def;'')
          else re_sub lit_re p r s) \<rparr>"

subsection \<open>Notions used to state the properties\<close>

text \<open>
  \<open>prepend pre res\<close> puts lines in front of the lines of a run that returned and keeps
  the exception of a run that raised.
\<close>

definition prepend :: "ustr list \<Rightarrow> exn + ustr list \<Rightarrow> exn + ustr list" where
  "prepend pre res = (case res of Inl e \<Rightarrow> Inl e | Inr out \<Rightarrow> Inr (pre @ out))"


text \<open>
  The words of the specification about a hint line: the number of parts that its colons
  delimit, and the text after its second colon.
\<close>

definition colon_parts :: "ustr \<Rightarrow> nat" where
  "colon_parts line = Suc (count_list line 0x3A)"

definition after_second_colon :: "ustr \<Rightarrow> ustr" where
  "after_second_colon line =
     tl (dropWhile (\<lambda>c. c \<noteq> 0x3A) (tl (dropWhile (\<lambda>c. c \<noteq> 0x3A) line)))"

section \<open>Properties\<close>

subsection \<open>Auxiliary facts\<close>

lemma prepend_simps [simp]:
  "prepend pre (Inl e) = Inl e" "prepend pre (Inr out) = Inr (pre @ out)"
  by (simp_all add: prepend_def)

lemma split_numeral [simp]:
  "split sep (numeral k) s =
     (case find_sub sep s of
        None \<Rightarrow> [s]
      | Some (b, a) \<Rightarrow> b # split sep (pred_numeral k) a)"
  by (simp add: numeral_eq_Suc)

lemma concat_cons_first: "concat (cons_first c ls) = c # concat ls"
  by (cases ls) simp_all

lemma concat_splitlines: "concat (splitlines s) = s"
  by (induction s rule: splitlines.induct) (simp_all add: concat_cons_first)

lemma parse_hint_error: "parse_hint l = Inl e \<Longrightarrow> e = ValueError"
  by (auto simp: parse_hint_def Let_def split: list.splits)

text \<open>One round of the loop, case by case.\<close>

lemma loop_plain: "\<not> is_hint_line l \<Longrightarrow> loop E acc (l # ls) = loop E (acc @ [l]) ls"
  by simp

lemma loop_parse_error:
  "is_hint_line l \<Longrightarrow> isl (parse_hint l) \<Longrightarrow> loop E acc (l # ls) = loop E (acc @ [l]) ls"
  by (cases "parse_hint l") (auto dest: parse_hint_error)

lemma loop_hint_eof:
  "is_hint_line l \<Longrightarrow> \<not> isl (parse_hint l) \<Longrightarrow> loop E acc [l] = Inr (acc @ [l])"
  by (cases "parse_hint l") auto

lemma loop_hint_target:
  "is_hint_line l \<Longrightarrow> parse_hint l = Inr (p, r) \<Longrightarrow>
   loop E acc (l # n # ls) =
     (case replace_line E n p r of
        Inl e \<Rightarrow> if e = ValueError then loop E (acc @ [l, n]) ls else Inl e
      | Inr m \<Rightarrow> loop E (acc @ [l, m]) ls)"
  by (simp split: sum.splits)

declare loop.simps(2) [simp del]

lemma loop_no_hints:
  "\<forall>l \<in> set ls. \<not> is_hint_line l \<Longrightarrow> loop E acc ls = Inr (acc @ ls)"
  by (induction ls arbitrary: acc) (simp_all add: loop_plain)

text \<open>The lines gathered before a run stay in front of what the run adds.\<close>

lemma loop_acc: "loop E acc ls = prepend acc (loop E [] ls)"
proof (induction ls arbitrary: acc rule: length_induct)
  case (1 ls)
  have IH: "loop E a ks = prepend a (loop E [] ks)"
    if "length ks < length ls" for a ks
    using "1.IH" that by blast
  have shift: "loop E (acc @ a) ks = prepend acc (loop E a ks)"
    if "length ks < length ls" for a ks
    using IH[OF that, of "acc @ a"] IH[OF that, of a]
    by (cases "loop E [] ks") simp_all
  show ?case
  proof (cases ls)
    case Nil
    then show ?thesis by simp
  next
    case (Cons l rest)
    have rest: "length rest < length ls" using Cons by simp
    show ?thesis
    proof (cases "is_hint_line l \<and> \<not> isl (parse_hint l)")
      case False
      then have "loop E a (l # rest) = loop E (a @ [l]) rest" for a
        using loop_plain loop_parse_error by blast
      then show ?thesis using Cons shift[OF rest, of "[l]"] by simp
    next
      case True
      then obtain p r where pr: "parse_hint l = Inr (p, r)"
        by (cases "parse_hint l") auto
      show ?thesis
      proof (cases rest)
        case Nil
        then show ?thesis using Cons True by (simp add: loop_hint_eof)
      next
        case (Cons n rest')
        have rest': "length rest' < length ls" using Cons \<open>ls = l # rest\<close> by simp
        show ?thesis
          using \<open>ls = l # rest\<close> Cons True pr shift[OF rest', of "[l, n]"] shift[OF rest']
          by (cases "replace_line E n p r") (simp_all add: loop_hint_target)
      qed
    qed
  qed
qed





lemma loop_first_target:
  assumes "is_hint_line l" "parse_hint l = Inr (p, r)"
  shows "loop E [] (l # n # ls) =
     (case replace_line E n p r of
        Inl e \<Rightarrow> if e = ValueError then prepend [l, n] (loop E [] ls) else Inl e
      | Inr m \<Rightarrow> prepend [l, m] (loop E [] ls))"
proof -
  have a: "loop E [l, x] ls = prepend [l, x] (loop E [] ls)" for x by (rule loop_acc)
  show ?thesis
    using loop_hint_target[OF assms, of E "[]" n ls]
    by (cases "replace_line E n p r") (simp_all add: a)
qed

subsection \<open>Documents without hint lines\<close>

text \<open>
  C1. A document none of whose lines contains the marker is returned as it is: the
  output is the input, code point by code point, whatever line terminators it mixes and
  whether or not it ends in one.
\<close>

theorem process_no_hint_identity:
  assumes "\<forall>l \<in> set (splitlines d). \<not> is_hint_line l"
  shows "process_content E d = Inr d"
  using assms by (simp add: process_content_def loop_no_hints concat_splitlines)

text \<open>
  The document \<^verbatim>\<open>a\nb\r\nc\rd\<close> mixes the three terminators and has no final
  newline.
\<close>

theorem process_no_hint_identity_witness:
  "list_all (\<lambda>l. \<not> is_hint_line l)
     (splitlines (str ''a\<newline>b'' @ [13, 10] @ str ''c'' @ [13] @ str ''d'')) \<and>
   process_content lit_re (str ''a\<newline>b'' @ [13, 10] @ str ''c'' @ [13] @ str ''d'') =
     Inr (str ''a\<newline>b'' @ [13, 10] @ str ''c'' @ [13] @ str ''d'')"
proof -
  have h: "\<forall>l \<in> set (splitlines (str ''a\<newline>b'' @ [13, 10] @ str ''c'' @ [13] @ str ''d'')).
             \<not> is_hint_line l"
    by (simp add: str_def is_linebreak_def is_hint_line_def contains_def marker_def)
  show ?thesis
    using h process_no_hint_identity [OF h, of lit_re] by (simp add: list_all_iff)
qed


subsection \<open>A hint that does not parse\<close>




end
